theory Spec2Isabelle
  imports Main "HOL-Library.Sublist"
begin

section \<open>JavaScript values and strings\<close>

text \<open>
  The client is JavaScript. The few values the modelled functions handle are strings,
  \<open>undefined\<close>, and the members every object literal inherits from
  \<open>Object.prototype\<close> (functions, and the prototype object itself for
  \<open>__proto__\<close>); \<open>JInherited k\<close> is the value found under the inherited name
  \<open>k\<close>. Two such values are the same object exactly when the names are the same.

  Strings are lists of 8-bit characters. JavaScript strings are sequences of UTF-16 code
  units; the functions below are what the source computes on strings of ASCII characters.
\<close>

datatype jsval = JUndefined | JStr string | JInherited string

fun js_truthy :: "jsval \<Rightarrow> bool" where
  "js_truthy JUndefined = False"
| "js_truthy (JStr s) = (s \<noteq> [])"
| "js_truthy (JInherited k) = True"

definition Object_prototype :: "string list" where
  "Object_prototype =
     [''constructor'', ''toString'', ''toLocaleString'', ''valueOf'', ''hasOwnProperty'',
      ''isPrototypeOf'', ''propertyIsEnumerable'', ''__proto__'', ''__defineGetter__'',
      ''__defineSetter__'', ''__lookupGetter__'', ''__lookupSetter__'']"

text \<open>
  \<open>obj[key]\<close> on an object literal whose own properties are the association list
  \<open>own\<close>: the own property when there is one, else the member inherited from
  \<open>Object.prototype\<close>, else \<open>undefined\<close>.
\<close>

definition js_get :: "(string \<times> jsval) list \<Rightarrow> string \<Rightarrow> jsval" where
  "js_get own key =
     (case map_of own key of
        Some v \<Rightarrow> v
      | None \<Rightarrow> if key \<in> set Object_prototype then JInherited key else JUndefined)"

definition is_ascii :: "char \<Rightarrow> bool" where
  "is_ascii c = (\<not> digit7 c)"

definition toUpperCase_char :: "char \<Rightarrow> char" where
  "toUpperCase_char c =
     (case map_of (zip ''abcdefghijklmnopqrstuvwxyz'' ''ABCDEFGHIJKLMNOPQRSTUVWXYZ'') c of
        Some u \<Rightarrow> u
      | None \<Rightarrow> c)"

text \<open>\<open>s.toUpperCase()\<close> on a string of ASCII characters.\<close>

definition toUpperCase :: "string \<Rightarrow> string" where
  "toUpperCase s = map toUpperCase_char s"

text \<open>
  \<open>s.replace(/pat/, '')\<close> for a regular expression that is the literal, non-empty
  text \<open>pat\<close> and has no flag: the leftmost occurrence of \<open>pat\<close> is removed, the
  rest of the string is kept.
\<close>

fun replace_first :: "string \<Rightarrow> string \<Rightarrow> string" where
  "replace_first pat [] = []"
| "replace_first pat (c # cs) =
     (if prefix pat (c # cs) then drop (length pat) (c # cs)
      else c # replace_first pat cs)"

section \<open>Status vocabulary\<close>

text \<open>
  \<open>Jenkins.prototype._colorStatus\<close>. The table \<open>STATUS\<close> is an object literal, so
  \<open>STATUS[color]\<close> also finds the inherited members.
\<close>

definition STATUS_of_color :: "(string \<times> jsval) list" where
  "STATUS_of_color =
     [(''blue'', JStr ''OK''), (''green'', JStr ''OK''), (''grey'', JStr ''ABORTED''),
      (''red'', JStr ''FAIL''), (''yellow'', JStr ''WARN'')]"

definition colorStatus :: "string \<Rightarrow> jsval" where
  "colorStatus color0 =
     (let color = replace_first ''_anime'' color0;
          v = js_get STATUS_of_color color
      in if js_truthy v then v else JStr (toUpperCase color))"

record job_summary =
  status :: jsval
  name :: string

text \<open>
  \<open>_.uniq\<close> keeps the first occurrence of each value, in order.
\<close>

definition uniq :: "'a list \<Rightarrow> 'a list" where
  "uniq xs = rev (remdups (rev xs))"

definition STATUS_priority :: "string list" where
  "STATUS_priority = [''FAIL'', ''WARN'', ''ABORTED'', ''OK'']"

text \<open>
  The \<open>for\<close> loop of \<open>_dashboardStatus\<close>: the first entry of the priority list that
  \<open>indexOf\<close> finds among the statuses, \<open>null\<close> (\<open>None\<close>) when the loop ends
  without a \<open>break\<close>.
\<close>

fun first_present :: "string list \<Rightarrow> jsval list \<Rightarrow> string option" where
  "first_present [] present = None"
| "first_present (s # ss) present =
     (if JStr s \<in> set present then Some s else first_present ss present)"

text \<open>
  \<open>Jenkins.prototype._dashboardStatus(opts, data)\<close>; the first argument here is
  \<open>opts.jobName\<close>, \<open>JUndefined\<close> when the property is absent. The filter runs only
  when \<open>opts.jobName\<close> is truthy.
\<close>

definition dashboardStatus :: "jsval \<Rightarrow> job_summary list \<Rightarrow> string option" where
  "dashboardStatus jobName data0 =
     (let data = (if js_truthy jobName
                  then filter (\<lambda>item. JStr (name item) = jobName) data0
                  else data0)
      in first_present STATUS_priority (uniq (map status data)))"

section \<open>Executor reader\<close>

text \<open>
  The two regular expressions of \<open>Jenkins.prototype.executor\<close> use \<open>.\<close>, which
  matches any character but a line terminator. Of JavaScript's four line terminators,
  line feed and carriage return are 8-bit characters.
\<close>

definition is_line_terminator :: "char \<Rightarrow> bool" where
  "is_line_terminator c = (c = CHR 0x0A \<or> c = CHR 0x0D)"

text \<open>
  A match of \<open>/.*\/job\//\<close> that starts at the head of the string; the result
  is the text after the match. The star is greedy: the matcher first lets \<open>.\<close> take the
  next character and goes on, and only when that fails tries \<open>/job/\<close> where it stands.
\<close>

fun match_upto_job :: "string \<Rightarrow> string option" where
  "match_upto_job [] = None"
| "match_upto_job (c # cs) =
     (case (if is_line_terminator c then None else match_upto_job cs) of
        Some rest \<Rightarrow> Some rest
      | None \<Rightarrow> if prefix ''/job/'' (c # cs) then Some (drop 5 (c # cs)) else None)"

text \<open>
  \<open>s.replace(/.*\/job\//, '')\<close>: the match at the leftmost position where there is
  one is removed.
\<close>

fun replace_upto_job :: "string \<Rightarrow> string" where
  "replace_upto_job [] = []"
| "replace_upto_job (c # cs) =
     (case match_upto_job (c # cs) of
        Some rest \<Rightarrow> rest
      | None \<Rightarrow> c # replace_upto_job cs)"

text \<open>
  \<open>s.replace(/\/.*/, '')\<close>: the first slash is removed together with every character
  after it up to the next line terminator.
\<close>

fun replace_from_slash :: "string \<Rightarrow> string" where
  "replace_from_slash [] = []"
| "replace_from_slash (c # cs) =
     (if c = CHR ''/'' then dropWhile (\<lambda>d. \<not> is_line_terminator d) cs
      else c # replace_from_slash cs)"

definition executor_name :: "string \<Rightarrow> string" where
  "executor_name url = replace_from_slash (replace_upto_job url)"

text \<open>
  Errors: \<open>new Error(message)\<close>, the TypeError of a property read on \<open>null\<close>,
  the error of the transport adapter for a status code without a handler, the error of
  closing a datagram socket that is closed, and the error of the XML parser.
\<close>

datatype js_error = Error string | TypeError | Unexpected_status nat | Not_running | Parse_error

text \<open>
  An executor of the parsed response body, and the entry that the handler of status 200
  pushes for it. \<open>currentExecutable_url\<close> is
  \<open>executor.currentExecutable.url\<close>, \<open>None\<close> when \<open>currentExecutable\<close> is
  \<open>null\<close>: reading \<open>url\<close> then throws a TypeError.
\<close>

record executor_json =
  idle :: bool
  likelyStuck :: bool
  progress :: int
  currentExecutable_url :: "string option"

record executor_status =
  exec_idle :: bool
  exec_stuck :: bool
  exec_progress :: int
  exec_name :: jsval

definition executor_entry :: "executor_json \<Rightarrow> js_error + executor_status" where
  "executor_entry e =
     (if \<not> idle e then
        (case currentExecutable_url e of
           None \<Rightarrow> Inl TypeError
         | Some url \<Rightarrow>
             Inr \<lparr>exec_idle = idle e, exec_stuck = likelyStuck e, exec_progress = progress e,
                  exec_name = JStr (executor_name url)\<rparr>)
      else Inr \<lparr>exec_idle = idle e, exec_stuck = likelyStuck e, exec_progress = progress e,
                exec_name = JUndefined\<rparr>)"

section \<open>Client state and transport adapter\<close>

text \<open>
  The handlers are closures; each constructor below is one function expression of the
  source, with the variables it closes over. \<open>passThroughSuccess\<close>, \<open>htmlError\<close>
  and \<open>viewNotFoundError\<close> are the handlers that \<open>lib/http/view.js\<close> takes from
  \<open>lib/http/util.js\<close>.
\<close>

datatype handler =
    authFail
  | authRequire
  | build_success
  | build_notFound string
  | build_paramsRequire string
  | consoleStream_success string "nat option"
  | consoleStream_notFound string
  | stop_success
  | stop_notFound string
  | dashboard_success
  | executor_success
  | job_success
  | job_notFound string
  | queue_success
  | version_success
  | passThroughSuccess
  | htmlError
  | viewNotFoundError string

text \<open>
  The values of \<open>opts.queryStrings\<close>. \<open>QJson ps\<close> stands for the string
  \<open>JSON.stringify({ parameter: ps })\<close>, kept as the list of name and value pairs that
  is serialised; a value is \<open>None\<close> when the parameter has no \<open>=\<close>.
\<close>

datatype qsval = QStr string | QNum int | QJson "(string \<times> string option) list"

text \<open>
  \<open>this.opts\<close>: a property that was never assigned is \<open>None\<close>. The handler table
  is keyed by status code.
\<close>

record request_opts =
  queryStrings :: "(string \<times> qsval) list option"
  headers :: "(string \<times> string) list option"
  body :: "string option"
  handlers :: "nat \<rightharpoonup> handler"

record client =
  url :: string
  opts :: request_opts

text \<open>
  \<open>x || y\<close> for a string \<open>x\<close> that may be absent: \<open>x\<close> when it is there and
  not empty, else \<open>y\<close>.
\<close>

definition or_else :: "string option \<Rightarrow> string \<Rightarrow> string" where
  "or_else x y = (case x of None \<Rightarrow> y | Some s \<Rightarrow> if s \<noteq> [] then s else y)"

text \<open>
  The constructor: the URL argument, else the environment variable \<open>JENKINS_URL\<close>,
  else the default; the table starts with the two handlers of authentication.
\<close>

definition Jenkins :: "string option \<Rightarrow> string option \<Rightarrow> client" where
  "Jenkins url_arg env_JENKINS_URL =
     \<lparr>url = or_else url_arg (or_else env_JENKINS_URL ''http://localhost:8080''),
      opts = \<lparr>queryStrings = None, headers = None, body = None,
               handlers = [401 \<mapsto> authFail, 403 \<mapsto> authRequire]\<rparr>\<rparr>"

text \<open>
  A request handed to the transport adapter: the method, the URL and the options object
  as it is at the call.
\<close>

record http_request =
  req_method :: string
  req_url :: string
  req_opts :: request_opts

record http_result =
  statusCode :: nat
  res_headers :: "(string \<times> string) list"
  res_body :: string

text \<open>What comes back for a request: a transport error, or a response.\<close>

datatype outcome = Failure js_error | Response http_result

text \<open>
  A number as \<open>parseInt\<close> returns it. \<open>parseInt(s, 10)\<close> skips leading white
  space, reads an optional sign and the decimal digits that follow, and gives \<open>NaN\<close>
  when there is no digit; a header that is absent is \<open>undefined\<close> and gives
  \<open>NaN\<close> as well. The integer is exact here (JavaScript rounds beyond 2^53).
\<close>

datatype js_number = Num int | NaN

definition is_white_space :: "char \<Rightarrow> bool" where
  "is_white_space c = (c \<in> set [CHR 0x09, CHR 0x0A, CHR 0x0B, CHR 0x0C, CHR 0x0D, CHR 0x20, CHR 0xA0])"

definition digit_value :: "char \<Rightarrow> int option" where
  "digit_value c = map_of (zip ''0123456789'' [0, 1, 2, 3, 4, 5, 6, 7, 8, 9]) c"

fun read_digits :: "int \<Rightarrow> string \<Rightarrow> int" where
  "read_digits acc [] = acc"
| "read_digits acc (c # cs) =
     (case digit_value c of
        Some d \<Rightarrow> read_digits (10 * acc + d) cs
      | None \<Rightarrow> acc)"

definition parse_digits :: "string \<Rightarrow> int option" where
  "parse_digits s =
     (case s of
        [] \<Rightarrow> None
      | c # cs \<Rightarrow> (if digit_value c = None then None else Some (read_digits 0 s)))"

definition parseInt :: "string option \<Rightarrow> js_number" where
  "parseInt header =
     (case header of
        None \<Rightarrow> NaN
      | Some s \<Rightarrow>
          (case dropWhile is_white_space s of
             [] \<Rightarrow> NaN
           | c # cs \<Rightarrow>
               if c = CHR ''-'' then (case parse_digits cs of Some n \<Rightarrow> Num (- n) | None \<Rightarrow> NaN)
               else if c = CHR ''+'' then (case parse_digits cs of Some n \<Rightarrow> Num n | None \<Rightarrow> NaN)
               else (case parse_digits (c # cs) of Some n \<Rightarrow> Num n | None \<Rightarrow> NaN)))"

text \<open>
  The parameters of a poll of the console stream, sent with \<open>request.get\<close>:
  \<open>qs.start\<close> and the proxy that \<open>bag.proxy(url)\<close> finds in the environment.
\<close>

record poll_request =
  get_url :: string
  get_start :: js_number
  get_proxy :: "string option"

text \<open>
  Modelled from the spec: the class \<open>ConsoleStream\<close> of \<open>lib/consolestream.js\<close>
  is not among the sources. By the specification the stream hands its consumer every
  event in the order of the \<open>emit\<close> calls: chunks of data, and the end.
\<close>

datatype stream_event = Data string | End

text \<open>
  What an operation does, in the order it does it: a request through the transport
  adapter, a poll, an event on the console stream, a timer set for a number of
  milliseconds, a call of the callback with at most an error (\<open>cb(err)\<close>,
  \<open>cb(null)\<close> or \<open>cb()\<close>), the invocation of a handler whose body is modelled
  apart (the readers of a response body) or is not among the sources (those of
  \<open>lib/http/util.js\<close>), a call \<open>cb(null, result)\<close> whose result is what the
  XML parser makes of the given text, a line on the console, an exception, a UDP
  datagram (payload, port, host), a feed handed to \<open>feedparser.parseUrl\<close>, and a
  cron job started on a schedule.
\<close>

datatype effect =
    Send http_request
  | Get poll_request
  | Emit stream_event
  | Timer nat
  | Call_cb "js_error option"
  | Invoke handler http_result
  | Call_cb_result string
  | Log string
  | Throw js_error
  | Datagram string nat string
  | Parse_feed string
  | Cron string

section \<open>Build trigger\<close>

text \<open>\<open>s.split(sep)\<close> for a separator of one character.\<close>

fun split :: "char \<Rightarrow> string \<Rightarrow> string list" where
  "split sep [] = [[]]"
| "split sep (c # cs) =
     (if c = sep then [] # split sep cs
      else (case split sep cs of
              [] \<Rightarrow> [[c]]
            | x # xs \<Rightarrow> (c # x) # xs))"

text \<open>
  The parameter list of \<open>build\<close>: nothing when \<open>params\<close> is \<open>null\<close> or empty;
  else one entry for each part between ampersands, its name the text before the first
  \<open>=\<close> and its value the text between the first and the second.
\<close>

definition build_parameter :: "string \<Rightarrow> string \<times> string option" where
  "build_parameter param =
     (case split (CHR ''='') param of
        [] \<Rightarrow> ([], None)
      | [k] \<Rightarrow> (k, None)
      | k # v # rest \<Rightarrow> (k, Some v))"

definition build_parameters :: "string option \<Rightarrow> (string \<times> string option) list" where
  "build_parameters params =
     (case params of
        None \<Rightarrow> []
      | Some p \<Rightarrow> if p = [] then [] else map build_parameter (split (CHR ''&'') p))"

text \<open>
  Every operation below takes the client and returns it as the call leaves it, with what
  the call did before it returned.
\<close>

definition build :: "string \<Rightarrow> string option \<Rightarrow> client \<Rightarrow> client \<times> effect list" where
  "build jobName params c =
     (let o1 = (opts c)\<lparr>queryStrings :=
                  Some [(''token'', QStr ''nestor''), (''json'', QJson (build_parameters params))]\<rparr>;
          o2 = o1\<lparr>handlers := (handlers o1)(200 \<mapsto> build_success, 201 \<mapsto> build_success,
                     404 \<mapsto> build_notFound jobName, 405 \<mapsto> build_paramsRequire jobName)\<rparr>
      in (c\<lparr>opts := o2\<rparr>,
          [Send \<lparr>req_method = ''post'', req_url = url c @ ''/job/'' @ jobName @ ''/build'',
                 req_opts = o2\<rparr>]))"

section \<open>Console stream\<close>

definition more_data :: "http_result \<Rightarrow> bool" where
  "more_data r = (map_of (res_headers r) ''x-more-data'' = Some ''true'')"

definition emit_body :: "http_result \<Rightarrow> effect list" where
  "emit_body r = (if res_body r \<noteq> [] then [Emit (Data (res_body r))] else [])"

definition poll_interval :: "nat option \<Rightarrow> nat" where
  "poll_interval interval =
     (case interval of None \<Rightarrow> 1000 | Some i \<Rightarrow> if i \<noteq> 0 then i else 1000)"

definition poll :: "string \<Rightarrow> string option \<Rightarrow> http_result \<Rightarrow> poll_request" where
  "poll u envProxy r =
     \<lparr>get_url = u, get_start = parseInt (map_of (res_headers r) ''x-text-size''),
      get_proxy = envProxy\<rparr>"

text \<open>
  The \<open>async.whilst\<close> of \<open>consoleStream\<close>, from its test on; \<open>async\<close> runs
  the test, then the body, and on the body's callback either the test again or, on an
  error, the final function. \<open>r\<close> is the last
  response, the list holds what the server answers to the polls still to come. While
  the last response says that more data is pending, a poll is sent: when it fails the
  loop ends with the error; when it is answered the body is emitted, the timer is set
  and the loop goes on with the answer; when the list is empty the poll is still
  unanswered and nothing more happens. The end of the loop emits \<open>end\<close> and calls the
  callback.
\<close>

fun whilst :: "string \<Rightarrow> nat option \<Rightarrow> string option \<Rightarrow> http_result \<Rightarrow> outcome list \<Rightarrow> effect list" where
  "whilst u interval envProxy r [] =
     (if more_data r then [Get (poll u envProxy r)]
      else [Emit End, Call_cb None])"
| "whilst u interval envProxy r (Failure err # script) =
     (if more_data r then [Get (poll u envProxy r), Emit End, Call_cb (Some err)]
      else [Emit End, Call_cb None])"
| "whilst u interval envProxy r (Response r' # script) =
     (if more_data r
      then Get (poll u envProxy r) # emit_body r' @ Timer (poll_interval interval) #
             whilst u interval envProxy r' script
      else [Emit End, Call_cb None])"

section \<open>Handlers and dispatch\<close>

text \<open>
  What a handler does with the response it is given. The second and third arguments
  matter to the console stream only: the proxy of the environment and the answers to
  its polls.
\<close>

fun run_handler :: "handler \<Rightarrow> string option \<Rightarrow> outcome list \<Rightarrow> http_result \<Rightarrow> effect list" where
  "run_handler authFail envProxy script r =
     [Call_cb (Some (Error
        ''Authentication failed - incorrect username and/or password in Jenkins URL''))]"
| "run_handler authRequire envProxy script r =
     [Call_cb (Some (Error
        ''Jenkins requires authentication - set username and password in Jenkins URL''))]"
| "run_handler build_success envProxy script r = [Call_cb None]"
| "run_handler (build_notFound jobName) envProxy script r =
     [Call_cb (Some (Error (''Job '' @ jobName @ '' does not exist'')))]"
| "run_handler (build_paramsRequire jobName) envProxy script r =
     [Call_cb (Some (Error (''Job '' @ jobName @ '' requires build parameters'')))]"
| "run_handler (consoleStream_success u interval) envProxy script r =
     emit_body r @ whilst u interval envProxy r script"
| "run_handler (consoleStream_notFound jobName) envProxy script r =
     [Call_cb (Some (Error (''Job '' @ jobName @ '' does not exist'')))]"
| "run_handler stop_success envProxy script r = [Call_cb None]"
| "run_handler (stop_notFound jobName) envProxy script r =
     [Call_cb (Some (Error (''Job '' @ jobName @ '' does not exist'')))]"
| "run_handler (job_notFound jobName) envProxy script r =
     [Call_cb (Some (Error (''Job '' @ jobName @ '' does not exist'')))]"
| "run_handler h envProxy script r = [Invoke h r]"

text \<open>
  Modelled from the spec: the transport adapter \<open>bag.request\<close> is the module
  \<open>bagofrequest\<close>, which is not among the sources. By the specification it sends the
  request with the query parameters, headers and body of the options object, and when
  the request completes: a transport error goes to the callback; a response goes to the
  handler that the table of the options object holds for its status code at that
  moment; a status code without a handler takes the default failure path, an error to
  the callback.
\<close>

definition bag_response ::
  "request_opts \<Rightarrow> string option \<Rightarrow> outcome list \<Rightarrow> outcome \<Rightarrow> effect list" where
  "bag_response ropts envProxy script out =
     (case out of
        Failure err \<Rightarrow> [Call_cb (Some err)]
      | Response r \<Rightarrow>
          (case handlers ropts (statusCode r) of
             Some h \<Rightarrow> run_handler h envProxy script r
           | None \<Rightarrow> [Call_cb (Some (Unexpected_status (statusCode r)))]))"

section \<open>Reading a trace\<close>

text \<open>The calls of the callback, the polls, the events, the requests of a trace.\<close>

fun is_Call_cb :: "effect \<Rightarrow> bool" where
  "is_Call_cb (Call_cb err) = True"
| "is_Call_cb (Call_cb_result x) = True"
| "is_Call_cb e = False"

fun is_Get :: "effect \<Rightarrow> bool" where
  "is_Get (Get p) = True"
| "is_Get e = False"

fun is_Emit :: "effect \<Rightarrow> bool" where
  "is_Emit (Emit ev) = True"
| "is_Emit e = False"


fun is_request :: "effect \<Rightarrow> bool" where
  "is_request (Send req) = True"
| "is_request (Get p) = True"
| "is_request e = False"

fun sent_requests :: "effect list \<Rightarrow> http_request list" where
  "sent_requests [] = []"
| "sent_requests (Send req # es) = req # sent_requests es"
| "sent_requests (e # es) = sent_requests es"

section \<open>The operations of the client\<close>

text \<open>
  \<open>consoleStream\<close> sets the options at once and sends its first request on the next
  tick of the event loop, with the options object as it is then.
\<close>

definition progressiveText :: "client \<Rightarrow> string \<Rightarrow> string" where
  "progressiveText c jobName = url c @ ''/job/'' @ jobName @ ''/lastBuild/logText/progressiveText''"

definition consoleStream :: "string \<Rightarrow> nat option \<Rightarrow> client \<Rightarrow> client \<times> effect list" where
  "consoleStream jobName interval c =
     (let o1 = (opts c)\<lparr>queryStrings := Some [(''start'', QNum 0)]\<rparr>;
          o2 = o1\<lparr>handlers := (handlers o1)
                  (200 \<mapsto> consoleStream_success (progressiveText c jobName) interval,
                   404 \<mapsto> consoleStream_notFound jobName)\<rparr>
      in (c\<lparr>opts := o2\<rparr>, []))"

definition consoleStream_tick :: "string \<Rightarrow> client \<Rightarrow> effect list" where
  "consoleStream_tick jobName c =
     [Send \<lparr>req_method = ''get'', req_url = progressiveText c jobName, req_opts = opts c\<rparr>]"

text \<open>
  A console stream with nothing else happening on the client: the call, the tick, the
  answer to the first request and the answers to the polls.
\<close>

definition consoleStream_run ::
  "string \<Rightarrow> nat option \<Rightarrow> string option \<Rightarrow> client \<Rightarrow> outcome \<Rightarrow> outcome list \<Rightarrow> effect list" where
  "consoleStream_run jobName interval envProxy c first script =
     (let (c1, called) = consoleStream jobName interval c
      in called @ consoleStream_tick jobName c1 @ bag_response (opts c1) envProxy script first)"

definition stop :: "string \<Rightarrow> client \<Rightarrow> client \<times> effect list" where
  "stop jobName c =
     (let o1 = (opts c)\<lparr>handlers := (handlers (opts c))
                  (200 \<mapsto> stop_success, 404 \<mapsto> stop_notFound jobName)\<rparr>
      in (c\<lparr>opts := o1\<rparr>,
          [Send \<lparr>req_method = ''post'', req_url = url c @ ''/job/'' @ jobName @ ''/lastBuild/stop'',
                 req_opts = o1\<rparr>]))"

definition dashboard :: "client \<Rightarrow> client \<times> effect list" where
  "dashboard c =
     (let o1 = (opts c)\<lparr>handlers := (handlers (opts c))(200 \<mapsto> dashboard_success)\<rparr>
      in (c\<lparr>opts := o1\<rparr>,
          [Send \<lparr>req_method = ''get'', req_url = url c @ ''/api/json'', req_opts = o1\<rparr>]))"

definition executor :: "client \<Rightarrow> client \<times> effect list" where
  "executor c =
     (let o1 = (opts c)\<lparr>queryStrings := Some [(''depth'', QNum 1)]\<rparr>;
          o2 = o1\<lparr>handlers := (handlers o1)(200 \<mapsto> executor_success)\<rparr>
      in (c\<lparr>opts := o2\<rparr>,
          [Send \<lparr>req_method = ''get'', req_url = url c @ ''/computer/api/json'', req_opts = o2\<rparr>]))"

definition job :: "string \<Rightarrow> client \<Rightarrow> client \<times> effect list" where
  "job jobName c =
     (let o1 = (opts c)\<lparr>handlers := (handlers (opts c))
                  (200 \<mapsto> job_success, 404 \<mapsto> job_notFound jobName)\<rparr>
      in (c\<lparr>opts := o1\<rparr>,
          [Send \<lparr>req_method = ''get'', req_url = url c @ ''/job/'' @ jobName @ ''/api/json'',
                 req_opts = o1\<rparr>]))"

definition queue :: "client \<Rightarrow> client \<times> effect list" where
  "queue c =
     (let o1 = (opts c)\<lparr>handlers := (handlers (opts c))(200 \<mapsto> queue_success)\<rparr>
      in (c\<lparr>opts := o1\<rparr>,
          [Send \<lparr>req_method = ''get'', req_url = url c @ ''/queue/api/json'', req_opts = o1\<rparr>]))"

definition version :: "client \<Rightarrow> client \<times> effect list" where
  "version c =
     (let o1 = (opts c)\<lparr>handlers := (handlers (opts c))(200 \<mapsto> version_success)\<rparr>
      in (c\<lparr>opts := o1\<rparr>,
          [Send \<lparr>req_method = ''head'', req_url = url c, req_opts = o1\<rparr>]))"

text \<open>
  \<open>feed\<close> goes through the feed parser and \<open>discover\<close> through a UDP socket;
  neither reads nor writes \<open>this.opts\<close>. An option that is absent or empty is
  falsy.
\<close>

definition feed :: "string option \<Rightarrow> string option \<Rightarrow> client \<Rightarrow> client \<times> effect list" where
  "feed feed_jobName feed_viewName c =
     (let by_view = (case feed_viewName of
                       None \<Rightarrow> url c @ ''/rssAll''
                     | Some v \<Rightarrow> if v \<noteq> [] then url c @ ''/view/'' @ v @ ''/rssAll''
                               else url c @ ''/rssAll'')
      in (c, [Parse_feed
                (case feed_jobName of
                   None \<Rightarrow> by_view
                 | Some j \<Rightarrow> if j \<noteq> [] then url c @ ''/job/'' @ j @ ''/rssAll'' else by_view)]))"

definition discover :: "string \<Rightarrow> client \<Rightarrow> client \<times> effect list" where
  "discover host c = (c, [Datagram ''Long live Jenkins!'' 33848 host, Timer 5000])"

text \<open>
  \<open>monitor\<close> calls \<open>dashboard\<close> before it returns, \<open>console\<close> calls
  \<open>consoleStream\<close>. The schedule of \<open>monitor\<close> defaults to every minute.
\<close>

definition console :: "string \<Rightarrow> nat option \<Rightarrow> client \<Rightarrow> client \<times> effect list" where
  "console jobName interval c = consoleStream jobName interval c"

definition monitor :: "string option \<Rightarrow> client \<Rightarrow> client \<times> effect list" where
  "monitor schedule c =
     (let (c1, sent) = dashboard c
      in (c1, sent @ [Cron (or_else schedule ''0 * * * * *'')]))"

text \<open>The three functions of \<open>lib/http/view.js\<close>, called on the client.\<close>

definition create :: "string \<Rightarrow> string \<Rightarrow> client \<Rightarrow> client \<times> effect list" where
  "create viewName config c =
     (let o1 = (opts c)\<lparr>queryStrings := Some [(''name'', QStr viewName)],
                        headers := Some [(''content-type'', ''application/xml'')],
                        body := Some config\<rparr>;
          o2 = o1\<lparr>handlers := (handlers o1)(200 \<mapsto> passThroughSuccess, 400 \<mapsto> htmlError)\<rparr>
      in (c\<lparr>opts := o2\<rparr>,
          [Send \<lparr>req_method = ''post'', req_url = url c @ ''/createView'', req_opts = o2\<rparr>]))"

definition update :: "string \<Rightarrow> string \<Rightarrow> client \<Rightarrow> client \<times> effect list" where
  "update viewName config c =
     (let o1 = (opts c)\<lparr>body := Some config\<rparr>;
          o2 = o1\<lparr>handlers := (handlers o1)
                  (200 \<mapsto> passThroughSuccess, 404 \<mapsto> viewNotFoundError viewName)\<rparr>
      in (c\<lparr>opts := o2\<rparr>,
          [Send \<lparr>req_method = ''post'', req_url = url c @ ''/view/'' @ viewName @ ''/config.xml'',
                 req_opts = o2\<rparr>]))"

definition fetchConfig :: "string \<Rightarrow> client \<Rightarrow> client \<times> effect list" where
  "fetchConfig viewName c =
     (let o1 = (opts c)\<lparr>handlers := (handlers (opts c))
                  (200 \<mapsto> passThroughSuccess, 404 \<mapsto> viewNotFoundError viewName)\<rparr>
      in (c\<lparr>opts := o1\<rparr>,
          [Send \<lparr>req_method = ''get'', req_url = url c @ ''/view/'' @ viewName @ ''/config.xml'',
                 req_opts = o1\<rparr>]))"

section \<open>Building the jobs of the dashboard\<close>


text \<open>
  \<open>async.each\<close> calls the iterator on every item before any of them completes:
  \<open>build\<close> once for each job, in order, each with \<open>null\<close> for its parameters.
\<close>

fun each_build :: "job_summary list \<Rightarrow> client \<Rightarrow> client \<times> effect list" where
  "each_build [] c = (c, [])"
| "each_build (item # items) c =
     (let (c1, sent1) = build (name item) None c;
          (c2, sent2) = each_build items c1
      in (c2, sent1 @ sent2))"


definition buildBy :: "(string \<times> jsval) list option \<Rightarrow> client \<Rightarrow> client \<times> effect list" where
  "buildBy criteria c = dashboard c"





section \<open>Discovery\<close>






section \<open>All operations\<close>

datatype operation =
    Build string "string option"
  | BuildBy "(string \<times> jsval) list option"
  | ConsoleStream string "nat option"
  | Console string "nat option"
  | Stop string
  | Dashboard
  | Discover string
  | Executor
  | Job string
  | Queue
  | Version
  | Feed "string option" "string option"
  | Monitor "string option"
  | Create string string
  | Update string string
  | FetchConfig string

fun perform :: "operation \<Rightarrow> client \<Rightarrow> client \<times> effect list" where
  "perform (Build jobName params) c = build jobName params c"
| "perform (BuildBy criteria) c = buildBy criteria c"
| "perform (ConsoleStream jobName interval) c = consoleStream jobName interval c"
| "perform (Console jobName interval) c = console jobName interval c"
| "perform (Stop jobName) c = stop jobName c"
| "perform Dashboard c = dashboard c"
| "perform (Discover host) c = discover host c"
| "perform Executor c = executor c"
| "perform (Job jobName) c = job jobName c"
| "perform Queue c = queue c"
| "perform Version c = version c"
| "perform (Feed feed_jobName feed_viewName) c = feed feed_jobName feed_viewName c"
| "perform (Monitor schedule) c = monitor schedule c"
| "perform (Create viewName config) c = create viewName config c"
| "perform (Update viewName config) c = update viewName config c"
| "perform (FetchConfig viewName) c = fetchConfig viewName c"

text \<open>
  The status codes whose handler an operation assigns in \<open>this.opts.handlers\<close>;
  none for the two operations that do not go through the transport adapter.
\<close>

fun assigned :: "operation \<Rightarrow> nat list" where
  "assigned (Build jobName params) = [200, 201, 404, 405]"
| "assigned (BuildBy criteria) = [200]"
| "assigned (ConsoleStream jobName interval) = [200, 404]"
| "assigned (Console jobName interval) = [200, 404]"
| "assigned (Stop jobName) = [200, 404]"
| "assigned Dashboard = [200]"
| "assigned (Discover host) = []"
| "assigned Executor = [200]"
| "assigned (Job jobName) = [200, 404]"
| "assigned Queue = [200]"
| "assigned Version = [200]"
| "assigned (Feed feed_jobName feed_viewName) = []"
| "assigned (Monitor schedule) = [200]"
| "assigned (Create viewName config) = [200, 400]"
| "assigned (Update viewName config) = [200, 404]"
| "assigned (FetchConfig viewName) = [200, 404]"

text \<open>The operations that assign \<open>this.opts.queryStrings\<close>.\<close>

fun sets_queryStrings :: "operation \<Rightarrow> bool" where
  "sets_queryStrings (Build jobName params) = True"
| "sets_queryStrings (ConsoleStream jobName interval) = True"
| "sets_queryStrings (Console jobName interval) = True"
| "sets_queryStrings Executor = True"
| "sets_queryStrings (Create viewName config) = True"
| "sets_queryStrings op = False"

section \<open>Inputs of the examples\<close>

text \<open>A dashboard of four jobs.\<close>

definition jobs_ex :: "job_summary list" where
  "jobs_ex = [\<lparr>status = JStr ''OK'', name = ''a''\<rparr>, \<lparr>status = JStr ''ABORTED'', name = ''b''\<rparr>,
      \<lparr>status = JStr ''WARN'', name = ''c''\<rparr>, \<lparr>status = JStr ''NOTBUILT'', name = ''d''\<rparr>]"

text \<open>
  The script of two responses: a first chunk \<open>a\<close> with more data pending and the
  text size 10, then a last chunk \<open>b\<close>.
\<close>

definition first_chunk :: http_result where
  "first_chunk = \<lparr>statusCode = 200,
      res_headers = [(''x-more-data'', ''true''), (''x-text-size'', ''10'')], res_body = ''a''\<rparr>"

definition last_chunk :: http_result where
  "last_chunk = \<lparr>statusCode = 200, res_headers = [(''x-more-data'', ''false'')], res_body = ''b''\<rparr>"

section \<open>Properties of the status vocabulary\<close>

lemma no_border:
  assumes pre: "prefix (x # xs) (t @ x # xs)" and fresh: "x \<notin> set xs"
    and short: "length t \<le> length xs"
  shows "t = []"
proof (rule ccontr)
  assume ne: "t \<noteq> []"
  from pre obtain zs where zs: "t @ x # xs = (x # xs) @ zs" by (auto simp: prefix_def)
  have "(t @ x # xs) ! length t = x" by simp
  moreover have "length t < length (x # xs)" using short by simp
  then have "((x # xs) @ zs) ! length t = (x # xs) ! length t"
    by (simp only: nth_append if_True)
  ultimately have "(x # xs) ! length t = x" using zs by simp
  moreover from ne have "0 < length t" by simp
  ultimately have "xs ! (length t - 1) = x" by (simp add: nth_Cons')
  moreover have "length t - 1 < length xs" using short ne by (cases t) auto
  ultimately show False using fresh nth_mem by blast
qed

lemma anime_no_border:
  assumes pre: "prefix ''_anime'' (t @ ''_anime'')" and ns: "\<not> sublist ''_anime'' t"
  shows "t = []"
proof (cases "length t \<le> 5")
  case True
  then show ?thesis using no_border [of "CHR ''_''" "''anime''" t] pre by simp
next
  case False
  from pre have "prefix ''_anime'' t \<or> (\<exists>us. ''_anime'' = t @ us \<and> prefix us ''_anime'')"
    by (simp only: prefix_append)
  then have "prefix ''_anime'' t"
  proof
    assume "prefix ''_anime'' t" then show ?thesis .
  next
    assume "\<exists>us. ''_anime'' = t @ us \<and> prefix us ''_anime''"
    then obtain us where us: "''_anime'' = t @ us" by blast
    then have "length ''_anime'' = length t + length us" by (metis length_append)
    moreover have "length ''_anime'' = 6" by simp
    ultimately have "length t \<le> 5 \<or> length us = 0" by linarith
    with False have "us = []" by simp
    with us show ?thesis by simp
  qed
  then show ?thesis using ns by (meson prefix_imp_sublist)
qed

lemma replace_first_absent: "\<not> sublist pat t \<Longrightarrow> replace_first pat t = t"
proof (induction t)
  case Nil
  then show ?case by simp
next
  case (Cons c cs)
  have np: "\<not> prefix pat (c # cs)"
    using Cons.prems by (meson prefix_imp_sublist)
  have "\<not> sublist pat cs"
    using Cons.prems by (meson sublist_Cons_right)
  with Cons.IH np show ?case by simp
qed

lemma replace_first_suffix:
  "\<not> sublist ''_anime'' t \<Longrightarrow> replace_first ''_anime'' (t @ ''_anime'') = t"
proof (induction t)
  case Nil
  then show ?case by simp
next
  case (Cons c cs)
  have np: "\<not> prefix ''_anime'' (c # (cs @ ''_anime''))"
    using anime_no_border [of "c # cs"] Cons.prems by (metis append_Cons list.distinct(1))
  have "\<not> sublist ''_anime'' cs"
    using Cons.prems by (meson sublist_Cons_right)
  with Cons.IH have "replace_first ''_anime'' (cs @ ''_anime'') = cs" by blast
  with np show ?case by (simp only: append_Cons replace_first.simps if_False)
qed

lemma set_uniq: "set (uniq xs) = set xs"
  by (simp add: uniq_def)

lemma first_present_priority:
  "first_present STATUS_priority xs =
     (if JStr ''FAIL'' \<in> set xs then Some ''FAIL''
      else if JStr ''WARN'' \<in> set xs then Some ''WARN''
      else if JStr ''ABORTED'' \<in> set xs then Some ''ABORTED''
      else if JStr ''OK'' \<in> set xs then Some ''OK''
      else None)"
  by (simp add: STATUS_priority_def)


text \<open>
  C5 (amended). The statuses are plain strings in the source: the status called
  \<open>UNKNOWN(s)\<close> is the string \<open>s\<close> itself. For a raw token that is \<open>t\<close> or
  \<open>t\<close> followed by \<open>_anime\<close>, where \<open>t\<close> is made of ASCII characters, does not
  contain \<open>_anime\<close> and is not a name inherited from \<open>Object.prototype\<close>, the
  suffix is stripped and \<open>t\<close> is looked up: blue and green give OK, grey gives ABORTED,
  red gives FAIL, yellow gives WARN, and any other \<open>t\<close> gives the uppercased \<open>t\<close>,
  that is the uppercased token after stripping. In particular blue gives OK, red_anime
  gives FAIL and purple gives PURPLE.
\<close>

theorem colorStatus_classify:
  assumes "raw = t \<or> raw = t @ ''_anime''"
    and "\<not> sublist ''_anime'' t"
    and "t \<notin> set Object_prototype"
    and "\<forall>c\<in>set t. is_ascii c"
  shows "colorStatus raw =
           (if t = ''blue'' \<or> t = ''green'' then JStr ''OK''
            else if t = ''grey'' then JStr ''ABORTED''
            else if t = ''red'' then JStr ''FAIL''
            else if t = ''yellow'' then JStr ''WARN''
            else JStr (toUpperCase t))
         \<and> colorStatus ''blue'' = JStr ''OK''
         \<and> colorStatus ''red_anime'' = JStr ''FAIL''
         \<and> colorStatus ''purple'' = JStr ''PURPLE''"
proof -
  have strip: "replace_first ''_anime'' raw = t"
    using assms(1,2) replace_first_absent replace_first_suffix by blast
  have get: "js_get STATUS_of_color t =
           (if t = ''blue'' \<or> t = ''green'' then JStr ''OK''
            else if t = ''grey'' then JStr ''ABORTED''
            else if t = ''red'' then JStr ''FAIL''
            else if t = ''yellow'' then JStr ''WARN''
            else JUndefined)"
    using assms(3) by (simp add: js_get_def STATUS_of_color_def)
  have general: "colorStatus raw =
           (if t = ''blue'' \<or> t = ''green'' then JStr ''OK''
            else if t = ''grey'' then JStr ''ABORTED''
            else if t = ''red'' then JStr ''FAIL''
            else if t = ''yellow'' then JStr ''WARN''
            else JStr (toUpperCase t))"
    unfolding colorStatus_def strip Let_def get by simp
  have e1: "colorStatus ''blue'' = JStr ''OK''"
    by (simp add: colorStatus_def js_get_def STATUS_of_color_def)
  have e2: "colorStatus ''red_anime'' = JStr ''FAIL''"
    by (simp add: colorStatus_def js_get_def STATUS_of_color_def)
  have e3: "colorStatus ''purple'' = JStr ''PURPLE''"
    by (simp add: colorStatus_def js_get_def STATUS_of_color_def Object_prototype_def
        toUpperCase_def toUpperCase_char_def)
  from general e1 e2 e3 show ?thesis by blast
qed

text \<open>The theorem at the tokens \<open>notbuilt_anime\<close> and \<open>yellow_anime\<close>.\<close>

theorem colorStatus_classify_witness:
  "colorStatus ''notbuilt_anime'' = JStr ''NOTBUILT'' \<and> colorStatus ''yellow_anime'' = JStr ''WARN''"
proof -
  have a: "\<not> sublist ''_anime'' ''notbuilt''" by (simp add: sublist_code)
  have b: "''notbuilt'' \<notin> set Object_prototype" by (simp add: Object_prototype_def)
  have c: "\<forall>c\<in>set ''notbuilt''. is_ascii c" by (simp add: is_ascii_def)
  have a': "\<not> sublist ''_anime'' ''yellow''" by (simp add: sublist_code)
  have b': "''yellow'' \<notin> set Object_prototype" by (simp add: Object_prototype_def)
  have c': "\<forall>c\<in>set ''yellow''. is_ascii c" by (simp add: is_ascii_def)
  have "colorStatus (''notbuilt'' @ ''_anime'') = JStr (toUpperCase ''notbuilt'')"
    using colorStatus_classify [OF disjI2 [OF refl] a b c] by simp
  moreover have "colorStatus (''yellow'' @ ''_anime'') = JStr ''WARN''"
    using colorStatus_classify [OF disjI2 [OF refl] a' b' c'] by simp
  ultimately show ?thesis by (simp add: toUpperCase_def toUpperCase_char_def)
qed

text \<open>
  C5 as stated fails: the unknown token \<open>aborted_anime\<close> yields the uppercased
  stripped token, not the uppercased raw token; and \<open>_anime\<close> is removed from
  \<open>x_animey\<close>, where it is not a suffix.
\<close>

theorem colorStatus_raw_token_counterexample:
  "colorStatus ''aborted_anime'' = JStr ''ABORTED''
   \<and> toUpperCase ''aborted_anime'' = ''ABORTED_ANIME''
   \<and> colorStatus ''x_animey'' = JStr ''XY''"
  by (simp add: colorStatus_def js_get_def STATUS_of_color_def Object_prototype_def
        toUpperCase_def toUpperCase_char_def)

lemma dashboardStatus_first_present:
  "dashboardStatus jobName data =
     first_present STATUS_priority
       (map status (if js_truthy jobName
                    then filter (\<lambda>item. JStr (name item) = jobName) data else data))"
  by (simp add: dashboardStatus_def first_present_priority set_uniq)

text \<open>
  C6 (amended). The filter is applied only when \<open>opts.jobName\<close> is truthy, that is a
  non-empty string; with \<open>undefined\<close> or the empty string every job is kept. On the
  jobs kept, \<open>_dashboardStatus\<close> returns the most severe status present in the order
  FAIL, WARN, ABORTED, OK. It returns \<open>null\<close> on the empty list, when a non-empty filter
  matches no job, and when none of the four statuses is present; a list with WARN and
  ABORTED and no FAIL yields WARN.
\<close>

theorem dashboardStatus_priority:
  fixes data :: "job_summary list" and n :: string
  defines "worst \<equiv> \<lambda>jobs.
     (if JStr ''FAIL'' \<in> status ` set jobs then Some ''FAIL''
      else if JStr ''WARN'' \<in> status ` set jobs then Some ''WARN''
      else if JStr ''ABORTED'' \<in> status ` set jobs then Some ''ABORTED''
      else if JStr ''OK'' \<in> status ` set jobs then Some ''OK''
      else None)"
  shows "(jobName = JUndefined \<or> jobName = JStr [] \<longrightarrow>
            dashboardStatus jobName data = worst data)
       \<and> (n \<noteq> [] \<longrightarrow>
            dashboardStatus (JStr n) data = worst (filter (\<lambda>item. name item = n) data))
       \<and> dashboardStatus jobName [] = None
       \<and> (n \<noteq> [] \<and> n \<notin> name ` set data \<longrightarrow> dashboardStatus (JStr n) data = None)
       \<and> ((\<forall>s \<in> set STATUS_priority. JStr s \<notin> status ` set data) \<longrightarrow>
            dashboardStatus jobName data = None)
       \<and> (JStr ''WARN'' \<in> status ` set data \<and> JStr ''ABORTED'' \<in> status ` set data
            \<and> JStr ''FAIL'' \<notin> status ` set data \<longrightarrow>
            dashboardStatus JUndefined data = Some ''WARN'')"
proof -
  have c1: "jobName = JUndefined \<or> jobName = JStr [] \<longrightarrow>
            dashboardStatus jobName data = worst data"
    by (auto simp: dashboardStatus_first_present first_present_priority worst_def)
  have c2: "n \<noteq> [] \<longrightarrow>
            dashboardStatus (JStr n) data = worst (filter (\<lambda>item. name item = n) data)"
    by (simp add: dashboardStatus_first_present first_present_priority worst_def)
  have c3: "dashboardStatus jobName [] = None"
    by (simp add: dashboardStatus_first_present first_present_priority)
  have c4: "n \<noteq> [] \<and> n \<notin> name ` set data \<longrightarrow> dashboardStatus (JStr n) data = None"
  proof
    assume h: "n \<noteq> [] \<and> n \<notin> name ` set data"
    then have "filter (\<lambda>item. JStr (name item) = JStr n) data = []"
      by (auto simp: filter_empty_conv)
    with h show "dashboardStatus (JStr n) data = None"
      by (simp add: dashboardStatus_first_present first_present_priority)
  qed
  have c5: "(\<forall>s \<in> set STATUS_priority. JStr s \<notin> status ` set data) \<longrightarrow>
            dashboardStatus jobName data = None"
    by (auto simp: dashboardStatus_first_present first_present_priority STATUS_priority_def)
  have c6: "JStr ''WARN'' \<in> status ` set data \<and> JStr ''ABORTED'' \<in> status ` set data
            \<and> JStr ''FAIL'' \<notin> status ` set data \<longrightarrow>
            dashboardStatus JUndefined data = Some ''WARN''"
    by (simp add: dashboardStatus_first_present first_present_priority)
  from c1 c2 c3 c4 c5 c6 show ?thesis by blast
qed

text \<open>The theorem on a list of four jobs, unfiltered and with three filters.\<close>

theorem dashboardStatus_priority_witness:
  "dashboardStatus JUndefined jobs_ex = Some ''WARN''
   \<and> dashboardStatus (JStr ''b'') jobs_ex = Some ''ABORTED''
   \<and> dashboardStatus (JStr ''z'') jobs_ex = None
   \<and> dashboardStatus (JStr ''d'') jobs_ex = None"
proof -
  note t = dashboardStatus_priority [of JUndefined jobs_ex "''b''"]
  have "dashboardStatus JUndefined jobs_ex = Some ''WARN''"
    using t by (simp add: jobs_ex_def)
  moreover have "dashboardStatus (JStr ''b'') jobs_ex = Some ''ABORTED''"
    using t by (simp add: jobs_ex_def)
  moreover have "dashboardStatus (JStr ''z'') jobs_ex = None"
    using dashboardStatus_priority [of JUndefined jobs_ex "''z''"] by (simp add: jobs_ex_def)
  moreover have "dashboardStatus (JStr ''d'') jobs_ex = None"
    using dashboardStatus_priority [of JUndefined jobs_ex "''d''"] by (simp add: jobs_ex_def)
  ultimately show ?thesis by blast
qed

text \<open>
  C6 as stated fails: with the empty string as filter no job matches, and the result is
  not \<open>null\<close>.
\<close>

theorem dashboardStatus_empty_filter_counterexample:
  "'''' \<notin> name ` set [\<lparr>status = JStr ''FAIL'', name = ''job1''\<rparr>]
   \<and> dashboardStatus (JStr '''') [\<lparr>status = JStr ''FAIL'', name = ''job1''\<rparr>] = Some ''FAIL''"
  by (simp add: dashboardStatus_def uniq_def STATUS_priority_def)

section \<open>Properties of the executor reader\<close>

lemma match_upto_job_sublist:
  "match_upto_job s = Some r \<Longrightarrow> sublist ''/job/'' s"
proof (induction s arbitrary: r)
  case Nil
  then show ?case by simp
next
  case (Cons c cs)
  show ?case
  proof (cases "\<not> is_line_terminator c \<and> match_upto_job cs \<noteq> None")
    case True
    then have "sublist ''/job/'' cs" using Cons.IH by auto
    then show ?thesis by (simp only: sublist_Cons_right simp_thms)
  next
    case False
    then have "prefix ''/job/'' (c # cs)"
      using Cons.prems by (auto split: if_splits option.splits)
    then show ?thesis by (rule prefix_imp_sublist)
  qed
qed

lemma match_upto_job_last:
  assumes "\<forall>c\<in>set pre. \<not> is_line_terminator c"
    and "\<not> sublist ''/job/'' (''/'' @ tail)"
  shows "match_upto_job (pre @ ''/job/'' @ tail) = Some tail"
  using assms(1)
proof (induction pre)
  case Nil
  have a: "\<not> sublist ''/job/'' (''/'' @ tail)" by (rule assms(2))
  have "\<not> sublist ''/job/'' (''job/'' @ tail)"
    using a by (simp add: sublist_Cons_right)
  then have "match_upto_job (''job/'' @ tail) = None"
    using match_upto_job_sublist by (cases "match_upto_job (''job/'' @ tail)") auto
  then show ?case by simp
next
  case (Cons c pre)
  then show ?case by simp
qed

lemma replace_upto_job_match:
  "match_upto_job s = Some r \<Longrightarrow> replace_upto_job s = r"
  by (cases s) auto

lemma replace_from_slash_segment:
  "\<forall>c\<in>set s. \<not> is_line_terminator c \<Longrightarrow>
   replace_from_slash s = takeWhile (\<lambda>c. c \<noteq> CHR ''/'') s"
proof (induction s)
  case Nil
  then show ?case by simp
next
  case (Cons c cs)
  then have "dropWhile (\<lambda>d. \<not> is_line_terminator d) cs = []" by simp
  with Cons show ?case by simp
qed

lemma executor_name_segment:
  assumes "\<forall>c\<in>set pre. \<not> is_line_terminator c"
    and "\<forall>c\<in>set tail. \<not> is_line_terminator c"
    and "\<not> sublist ''/job/'' (''/'' @ tail)"
  shows "executor_name (pre @ ''/job/'' @ tail) = takeWhile (\<lambda>c. c \<noteq> CHR ''/'') tail"
proof -
  have "replace_upto_job (pre @ ''/job/'' @ tail) = tail"
    using match_upto_job_last [OF assms(1,3)] by (rule replace_upto_job_match)
  then show ?thesis
    using replace_from_slash_segment [OF assms(2)] by (simp add: executor_name_def)
qed

text \<open>
  C1 (amended). For a non-idle executor whose current executable URL has no line
  terminator, the running-job name is the segment after the last \<open>/job/\<close> of the URL:
  when the URL is \<open>pre\<close>, \<open>/job/\<close>, \<open>tail\<close> and no other \<open>/job/\<close> starts on
  the closing slash of this one or later, the name is \<open>tail\<close> up to its first slash.
  For \<open>.../job/myjob/3/\<close> the name is \<open>myjob\<close>, and for the nested
  \<open>.../job/folder/job/myjob/3/\<close> it is \<open>myjob\<close> as well.
\<close>

theorem executor_name_last_job:
  assumes "\<not> idle e"
    and "currentExecutable_url e = Some u"
    and "u = pre @ ''/job/'' @ tail"
    and "\<not> sublist ''/job/'' (''/'' @ tail)"
    and "\<forall>c\<in>set u. \<not> is_line_terminator c"
  shows "executor_entry e =
           Inr \<lparr>exec_idle = False, exec_stuck = likelyStuck e, exec_progress = progress e,
                exec_name = JStr (takeWhile (\<lambda>c. c \<noteq> CHR ''/'') tail)\<rparr>
         \<and> executor_name (pre @ ''/job/myjob/3/'') = ''myjob''
         \<and> executor_name (pre @ ''/job/folder/job/myjob/3/'') = ''myjob''"
proof -
  have p: "\<forall>c\<in>set pre. \<not> is_line_terminator c"
    and t: "\<forall>c\<in>set tail. \<not> is_line_terminator c"
    using assms(3,5) by auto
  have "executor_name u = takeWhile (\<lambda>c. c \<noteq> CHR ''/'') tail"
    unfolding assms(3) using p t assms(4) by (rule executor_name_segment)
  then have general: "executor_entry e =
           Inr \<lparr>exec_idle = False, exec_stuck = likelyStuck e, exec_progress = progress e,
                exec_name = JStr (takeWhile (\<lambda>c. c \<noteq> CHR ''/'') tail)\<rparr>"
    using assms(1,2) by (simp add: executor_entry_def)
  have t1: "\<forall>c\<in>set ''myjob/3/''. \<not> is_line_terminator c"
    by (simp add: is_line_terminator_def)
  have n1: "\<not> sublist ''/job/'' (''/'' @ ''myjob/3/'')"
    by (simp add: sublist_code)
  have "executor_name (pre @ ''/job/'' @ ''myjob/3/'') = takeWhile (\<lambda>c. c \<noteq> CHR ''/'') ''myjob/3/''"
    using p t1 n1 by (rule executor_name_segment)
  then have flat: "executor_name (pre @ ''/job/myjob/3/'') = ''myjob''" by simp
  have p2: "\<forall>c\<in>set (pre @ ''/job/folder''). \<not> is_line_terminator c"
    using p by (simp add: is_line_terminator_def)
  have "executor_name ((pre @ ''/job/folder'') @ ''/job/'' @ ''myjob/3/'')
          = takeWhile (\<lambda>c. c \<noteq> CHR ''/'') ''myjob/3/''"
    using p2 t1 n1 by (rule executor_name_segment)
  then have nested: "executor_name (pre @ ''/job/folder/job/myjob/3/'') = ''myjob''" by simp
  from general flat nested show ?thesis by blast
qed

text \<open>The theorem at a busy executor of a job named \<open>deploy\<close>.\<close>

theorem executor_name_last_job_witness:
  "executor_entry \<lparr>idle = False, likelyStuck = False, progress = 42,
      currentExecutable_url = Some ''http://ci:8080/job/deploy/7/''\<rparr>
   = Inr \<lparr>exec_idle = False, exec_stuck = False, exec_progress = 42, exec_name = JStr ''deploy''\<rparr>"
proof -
  let ?e = "\<lparr>idle = False, likelyStuck = False, progress = 42,
      currentExecutable_url = Some ''http://ci:8080/job/deploy/7/''\<rparr>"
  have a: "\<not> idle ?e" by simp
  have b: "currentExecutable_url ?e = Some ''http://ci:8080/job/deploy/7/''" by simp
  have c: "''http://ci:8080/job/deploy/7/'' = ''http://ci:8080'' @ ''/job/'' @ ''deploy/7/''" by simp
  have d: "\<not> sublist ''/job/'' (''/'' @ ''deploy/7/'')" by (simp add: sublist_code)
  have e: "\<forall>c\<in>set ''http://ci:8080/job/deploy/7/''. \<not> is_line_terminator c"
    by (simp add: is_line_terminator_def)
  show ?thesis using executor_name_last_job [OF a b c d e] by simp
qed

text \<open>
  C1 as stated fails on the nested URL: the name is \<open>myjob\<close>, not \<open>folder\<close>.
\<close>

theorem executor_name_nested_counterexample:
  "executor_name ''http://localhost:8080/job/folder/job/myjob/3/'' = ''myjob''
   \<and> executor_name ''http://localhost:8080/job/folder/job/myjob/3/'' \<noteq> ''folder''"
  by (simp add: executor_name_def is_line_terminator_def)

section \<open>Properties of the build trigger\<close>

lemma build_handlers:
  "handlers (opts (fst (build jobName params c))) =
     (handlers (opts c))(200 \<mapsto> build_success, 201 \<mapsto> build_success,
        404 \<mapsto> build_notFound jobName, 405 \<mapsto> build_paramsRequire jobName)"
  by (simp add: build_def Let_def)



section \<open>Properties of the console stream\<close>

lemma parseInt_10: "parseInt (Some ''10'') = Num 10"
  by (simp add: parseInt_def is_white_space_def parse_digits_def digit_value_def)

text \<open>
  C3. On the script of two responses the run is: the first request, with start offset 0;
  the event data a; one poll, with start offset 10 read from the text size of the first
  response; the event data b; the timer; the event end; the callback without error.
  The events are data a, data b, end in this order, and two requests are issued.
\<close>

theorem consoleStream_scripted:
  "consoleStream_run jobName interval envProxy c (Response first_chunk) [Response last_chunk] =
     [Send \<lparr>req_method = ''get'', req_url = progressiveText c jobName,
            req_opts = opts (fst (consoleStream jobName interval c))\<rparr>,
      Emit (Data ''a''),
      Get \<lparr>get_url = progressiveText c jobName, get_start = Num 10, get_proxy = envProxy\<rparr>,
      Emit (Data ''b''),
      Timer (poll_interval interval),
      Emit End,
      Call_cb None]
   \<and> queryStrings (opts (fst (consoleStream jobName interval c))) = Some [(''start'', QNum 0)]
   \<and> filter is_Emit
        (consoleStream_run jobName interval envProxy c (Response first_chunk) [Response last_chunk])
       = [Emit (Data ''a''), Emit (Data ''b''), Emit End]
   \<and> length (filter is_request
        (consoleStream_run jobName interval envProxy c (Response first_chunk) [Response last_chunk]))
       = 2"
  by (simp add: consoleStream_run_def consoleStream_def consoleStream_tick_def Let_def
      bag_response_def first_chunk_def last_chunk_def emit_body_def more_data_def poll_def
      parseInt_10 progressiveText_def)

lemma emit_body_plain [simp]:
  "filter is_Call_cb (emit_body r) = []" "filter is_Get (emit_body r) = []"
  "\<forall>e\<in>set (emit_body r). e \<noteq> Emit End \<and> \<not> is_Call_cb e"
  by (simp_all add: emit_body_def)

lemma whilst_ignores_rest:
  "\<forall>r\<in>set (r0 # rs). more_data r \<Longrightarrow>
   whilst u interval envProxy r0 (map Response rs @ Failure err # rest)
     = whilst u interval envProxy r0 (map Response rs @ [Failure err])"
  by (induction rs arbitrary: r0) simp_all

lemma whilst_failure_calls:
  "\<forall>r\<in>set (r0 # rs). more_data r \<Longrightarrow>
   filter is_Call_cb (whilst u interval envProxy r0 (map Response rs @ Failure err # rest))
     = [Call_cb (Some err)]"
  by (induction rs arbitrary: r0) simp_all

lemma whilst_failure_polls:
  "\<forall>r\<in>set (r0 # rs). more_data r \<Longrightarrow>
   length (filter is_Get (whilst u interval envProxy r0 (map Response rs @ Failure err # rest)))
     = Suc (length rs)"
  by (induction rs arbitrary: r0) simp_all

lemma whilst_failure_last:
  "\<forall>r\<in>set (r0 # rs). more_data r \<Longrightarrow>
   \<exists>front. whilst u interval envProxy r0 (map Response rs @ Failure err # rest)
       = front @ [Get (poll u envProxy (last (r0 # rs))), Emit End, Call_cb (Some err)]
     \<and> (\<forall>e\<in>set front. e \<noteq> Emit End \<and> \<not> is_Call_cb e)"
proof (induction rs arbitrary: r0)
  case Nil
  then show ?case by simp
next
  case (Cons r rs)
  then have "\<forall>x\<in>set (r # rs). more_data x" by simp
  from Cons.IH [OF this] obtain front where
    f: "whilst u interval envProxy r (map Response rs @ Failure err # rest)
          = front @ [Get (poll u envProxy (last (r # rs))), Emit End, Call_cb (Some err)]"
    and g: "\<forall>e\<in>set front. e \<noteq> Emit End \<and> \<not> is_Call_cb e"
    by blast
  let ?front = "Get (poll u envProxy r0) # emit_body r @ Timer (poll_interval interval) # front"
  have "whilst u interval envProxy r0 (map Response (r # rs) @ Failure err # rest)
          = ?front @ [Get (poll u envProxy (last (r0 # r # rs))), Emit End, Call_cb (Some err)]"
    using Cons.prems f by simp
  moreover have "\<forall>e\<in>set ?front. e \<noteq> Emit End \<and> \<not> is_Call_cb e"
    using g by (auto simp: emit_body_def)
  ultimately show ?case by blast
qed

lemma whilst_ends:
  "(\<forall>e\<in>set (whilst u interval envProxy r script). \<not> is_Call_cb e)
   \<or> (\<exists>front err. whilst u interval envProxy r script = front @ [Emit End, Call_cb err]
        \<and> (\<forall>e\<in>set front. e \<noteq> Emit End \<and> \<not> is_Call_cb e))"
proof (induction u interval envProxy r script rule: whilst.induct)
  case (1 u interval envProxy r)
  then show ?case by auto
next
  case (2 u interval envProxy r err script)
  show ?case
  proof (cases "more_data r")
    case True
    have "whilst u interval envProxy r (Failure err # script)
            = [Get (poll u envProxy r)] @ [Emit End, Call_cb (Some err)]"
      using True by simp
    moreover have "\<forall>e\<in>set [Get (poll u envProxy r)]. e \<noteq> Emit End \<and> \<not> is_Call_cb e" by simp
    ultimately show ?thesis by blast
  next
    case False
    then have "whilst u interval envProxy r (Failure err # script) = [] @ [Emit End, Call_cb None]"
      by simp
    then show ?thesis by fastforce
  qed
next
  case (3 u interval envProxy r r' script)
  show ?case
  proof (cases "more_data r")
    case True
    let ?pre = "Get (poll u envProxy r) # emit_body r' @ [Timer (poll_interval interval)]"
    have w: "whilst u interval envProxy r (Response r' # script)
            = ?pre @ whilst u interval envProxy r' script"
      using True by simp
    have pre: "\<forall>e\<in>set ?pre. e \<noteq> Emit End \<and> \<not> is_Call_cb e"
      by (auto simp: emit_body_def)
    from 3 [OF True] show ?thesis
    proof
      assume "\<forall>e\<in>set (whilst u interval envProxy r' script). \<not> is_Call_cb e"
      with pre w show ?thesis by auto
    next
      assume "\<exists>front err. whilst u interval envProxy r' script = front @ [Emit End, Call_cb err]
        \<and> (\<forall>e\<in>set front. e \<noteq> Emit End \<and> \<not> is_Call_cb e)"
      then obtain front err where
        f: "whilst u interval envProxy r' script = front @ [Emit End, Call_cb err]"
        and g: "\<forall>e\<in>set front. e \<noteq> Emit End \<and> \<not> is_Call_cb e" by blast
      have "whilst u interval envProxy r (Response r' # script)
              = (?pre @ front) @ [Emit End, Call_cb err]"
        using w f by simp
      moreover have "\<forall>e\<in>set (?pre @ front). e \<noteq> Emit End \<and> \<not> is_Call_cb e"
        using pre g by (auto simp: emit_body_def)
      ultimately show ?thesis by blast
    qed
  next
    case False
    then have "whilst u interval envProxy r (Response r' # script) = [] @ [Emit End, Call_cb None]"
      by simp
    then show ?thesis by fastforce
  qed
qed

lemma consoleStream_run_200:
  "statusCode r0 = 200 \<Longrightarrow>
   consoleStream_run jobName interval envProxy c (Response r0) script =
     Send \<lparr>req_method = ''get'', req_url = progressiveText c jobName,
           req_opts = opts (fst (consoleStream jobName interval c))\<rparr> #
     emit_body r0 @ whilst (progressiveText c jobName) interval envProxy r0 script"
  by (simp add: consoleStream_run_def consoleStream_def consoleStream_tick_def Let_def
      bag_response_def progressiveText_def)

text \<open>
  C4. Take a console stream whose first request is answered with status 200, whose
  responses so far all say that more data is pending, and whose next poll fails with a
  transport error. Whatever the server would answer afterwards changes nothing: the
  failing poll is the last effect but two, followed by the end event and the callback;
  the polls are one for each answered response and the failing one; the callback is
  called once, with that error.
\<close>

theorem consoleStream_poll_failure:
  assumes "statusCode r0 = 200" and "\<forall>r\<in>set (r0 # rs). more_data r"
  shows "consoleStream_run jobName interval envProxy c (Response r0)
             (map Response rs @ Failure err # rest)
           = consoleStream_run jobName interval envProxy c (Response r0)
               (map Response rs @ [Failure err])
         \<and> (\<exists>front. consoleStream_run jobName interval envProxy c (Response r0)
                        (map Response rs @ Failure err # rest)
                = front @ [Get (poll (progressiveText c jobName) envProxy (last (r0 # rs))),
                           Emit End, Call_cb (Some err)])
         \<and> length (filter is_Get (consoleStream_run jobName interval envProxy c (Response r0)
                        (map Response rs @ Failure err # rest))) = Suc (length rs)
         \<and> filter is_Call_cb (consoleStream_run jobName interval envProxy c (Response r0)
                        (map Response rs @ Failure err # rest)) = [Call_cb (Some err)]"
proof -
  let ?u = "progressiveText c jobName"
  note run = consoleStream_run_200 [OF assms(1)]
  have a: "whilst ?u interval envProxy r0 (map Response rs @ Failure err # rest)
             = whilst ?u interval envProxy r0 (map Response rs @ [Failure err])"
    using assms(2) by (rule whilst_ignores_rest)
  obtain front where
    b: "whilst ?u interval envProxy r0 (map Response rs @ Failure err # rest)
          = front @ [Get (poll ?u envProxy (last (r0 # rs))), Emit End, Call_cb (Some err)]"
    using whilst_failure_last [OF assms(2)] by blast
  have c: "length (filter is_Get
             (whilst ?u interval envProxy r0 (map Response rs @ Failure err # rest)))
           = Suc (length rs)"
    using assms(2) by (rule whilst_failure_polls)
  have d: "filter is_Call_cb
             (whilst ?u interval envProxy r0 (map Response rs @ Failure err # rest))
           = [Call_cb (Some err)]"
    using assms(2) by (rule whilst_failure_calls)
  have 1: "consoleStream_run jobName interval envProxy c (Response r0)
             (map Response rs @ Failure err # rest)
           = consoleStream_run jobName interval envProxy c (Response r0)
               (map Response rs @ [Failure err])"
    by (simp only: run a)
  have 2: "\<exists>front. consoleStream_run jobName interval envProxy c (Response r0)
                        (map Response rs @ Failure err # rest)
                = front @ [Get (poll ?u envProxy (last (r0 # rs))), Emit End, Call_cb (Some err)]"
    unfolding run b by (metis append_Cons append_assoc)
  have 3: "length (filter is_Get (consoleStream_run jobName interval envProxy c (Response r0)
                        (map Response rs @ Failure err # rest))) = Suc (length rs)"
    unfolding run using c by simp
  have 4: "filter is_Call_cb (consoleStream_run jobName interval envProxy c (Response r0)
                        (map Response rs @ Failure err # rest)) = [Call_cb (Some err)]"
    unfolding run using d by simp
  from 1 2 3 4 show ?thesis by blast
qed

text \<open>
  The theorem on the first chunk of the script followed by a failing poll; the second
  response of the script is never asked for.
\<close>

theorem consoleStream_poll_failure_witness:
  "consoleStream_run ''job1'' None None (Jenkins None None) (Response first_chunk)
     [Failure (Error ''socket hang up''), Response last_chunk]
   = consoleStream_run ''job1'' None None (Jenkins None None) (Response first_chunk)
     [Failure (Error ''socket hang up'')]
   \<and> length (filter is_Get (consoleStream_run ''job1'' None None (Jenkins None None)
        (Response first_chunk) [Failure (Error ''socket hang up''), Response last_chunk])) = 1
   \<and> filter is_Call_cb (consoleStream_run ''job1'' None None (Jenkins None None)
        (Response first_chunk) [Failure (Error ''socket hang up''), Response last_chunk])
       = [Call_cb (Some (Error ''socket hang up''))]"
proof -
  have a: "statusCode first_chunk = 200" by (simp add: first_chunk_def)
  have b: "\<forall>r\<in>set (first_chunk # []). more_data r"
    by (simp add: first_chunk_def more_data_def)
  show ?thesis
    using consoleStream_poll_failure [OF a b, of "''job1''" None None "Jenkins None None"
        "Error ''socket hang up''" "[Response last_chunk]"]
    by auto
qed

text \<open>
  C9. In the same executions the trace ends with the end event followed by the call of
  the callback with the error, and neither occurs earlier. The same holds for every way
  the polling loop ends: whenever the callback is called after a first response of status
  200, the end event comes just before the call.
\<close>

theorem consoleStream_end_before_error:
  assumes "statusCode r0 = 200" and "\<forall>r\<in>set (r0 # rs). more_data r"
  shows "(\<exists>front. consoleStream_run jobName interval envProxy c (Response r0)
                     (map Response rs @ Failure err # rest)
                = front @ [Emit End, Call_cb (Some err)]
              \<and> (\<forall>e\<in>set front. e \<noteq> Emit End \<and> \<not> is_Call_cb e))
         \<and> ((\<forall>e\<in>set (consoleStream_run jobName interval envProxy c (Response r0) script).
                \<not> is_Call_cb e)
            \<or> (\<exists>front err'. consoleStream_run jobName interval envProxy c (Response r0) script
                  = front @ [Emit End, Call_cb err']
                \<and> (\<forall>e\<in>set front. e \<noteq> Emit End \<and> \<not> is_Call_cb e)))"
proof -
  let ?u = "progressiveText c jobName"
  let ?head = "Send \<lparr>req_method = ''get'', req_url = ?u,
           req_opts = opts (fst (consoleStream jobName interval c))\<rparr> # emit_body r0"
  note run = consoleStream_run_200 [OF assms(1)]
  have head: "\<forall>e\<in>set ?head. e \<noteq> Emit End \<and> \<not> is_Call_cb e"
    by (auto simp: emit_body_def)
  obtain front where
    b: "whilst ?u interval envProxy r0 (map Response rs @ Failure err # rest)
          = front @ [Get (poll ?u envProxy (last (r0 # rs))), Emit End, Call_cb (Some err)]"
    and g: "\<forall>e\<in>set front. e \<noteq> Emit End \<and> \<not> is_Call_cb e"
    using whilst_failure_last [OF assms(2)] by blast
  let ?front = "?head @ front @ [Get (poll ?u envProxy (last (r0 # rs)))]"
  have "consoleStream_run jobName interval envProxy c (Response r0)
          (map Response rs @ Failure err # rest) = ?front @ [Emit End, Call_cb (Some err)]"
    unfolding run b by simp
  moreover have "\<forall>e\<in>set ?front. e \<noteq> Emit End \<and> \<not> is_Call_cb e"
    using head g by (auto simp: emit_body_def)
  ultimately have first: "\<exists>front. consoleStream_run jobName interval envProxy c (Response r0)
                     (map Response rs @ Failure err # rest)
                = front @ [Emit End, Call_cb (Some err)]
              \<and> (\<forall>e\<in>set front. e \<noteq> Emit End \<and> \<not> is_Call_cb e)"
    by blast
  have second: "(\<forall>e\<in>set (consoleStream_run jobName interval envProxy c (Response r0) script).
                \<not> is_Call_cb e)
            \<or> (\<exists>front err'. consoleStream_run jobName interval envProxy c (Response r0) script
                  = front @ [Emit End, Call_cb err']
                \<and> (\<forall>e\<in>set front. e \<noteq> Emit End \<and> \<not> is_Call_cb e))"
    using whilst_ends [of ?u interval envProxy r0 script]
  proof
    assume "\<forall>e\<in>set (whilst ?u interval envProxy r0 script). \<not> is_Call_cb e"
    then have "\<forall>e\<in>set (consoleStream_run jobName interval envProxy c (Response r0) script).
                \<not> is_Call_cb e"
      unfolding run using head by (auto simp: emit_body_def)
    then show ?thesis by blast
  next
    assume "\<exists>front err'. whilst ?u interval envProxy r0 script = front @ [Emit End, Call_cb err']
        \<and> (\<forall>e\<in>set front. e \<noteq> Emit End \<and> \<not> is_Call_cb e)"
    then obtain front' err' where
      f: "whilst ?u interval envProxy r0 script = front' @ [Emit End, Call_cb err']"
      and g': "\<forall>e\<in>set front'. e \<noteq> Emit End \<and> \<not> is_Call_cb e" by blast
    have "consoleStream_run jobName interval envProxy c (Response r0) script
            = (?head @ front') @ [Emit End, Call_cb err']"
      unfolding run f by simp
    moreover have "\<forall>e\<in>set (?head @ front'). e \<noteq> Emit End \<and> \<not> is_Call_cb e"
      using head g' by (auto simp: emit_body_def)
    ultimately show ?thesis by blast
  qed
  from first second show ?thesis by blast
qed

text \<open>
  The theorem on the stream of an empty first response and two answered polls before
  the failing one.
\<close>

theorem consoleStream_end_before_error_witness:
  "\<exists>front. consoleStream_run ''job1'' (Some 50) None (Jenkins None None)
              (Response (first_chunk\<lparr>res_body := []\<rparr>))
              [Response first_chunk, Response first_chunk, Failure (Error ''ECONNRESET'')]
          = front @ [Emit End, Call_cb (Some (Error ''ECONNRESET''))]
        \<and> (\<forall>e\<in>set front. e \<noteq> Emit End \<and> \<not> is_Call_cb e)"
proof -
  let ?r0 = "first_chunk\<lparr>res_body := []\<rparr>"
  have a: "statusCode ?r0 = 200" by (simp add: first_chunk_def)
  have b: "\<forall>r\<in>set (?r0 # [first_chunk, first_chunk]). more_data r"
    by (simp add: first_chunk_def more_data_def)
  show ?thesis
    using consoleStream_end_before_error [OF a b, of "''job1''" "Some 50" None
        "Jenkins None None" "Error ''ECONNRESET''" "[]" "[]"]
    by simp
qed

section \<open>Properties of buildBy\<close>

lemma build_url: "url (fst (build jobName params c)) = url c"
  by (simp add: build_def Let_def)


lemma each_build_url: "url (fst (each_build jobs c)) = url c"
  by (induction jobs arbitrary: c) (simp_all add: split_beta Let_def build_url)











section \<open>Properties of the shared options\<close>

lemma perform_queryStrings_kept:
  "\<not> sets_queryStrings op \<Longrightarrow>
   queryStrings (opts (fst (perform op c))) = queryStrings (opts c)
   \<and> (\<forall>req\<in>set (sent_requests (snd (perform op c))).
         queryStrings (req_opts req) = queryStrings (opts c))"
  by (cases op)
     (simp_all add: buildBy_def stop_def dashboard_def discover_def job_def queue_def
        version_def feed_def monitor_def update_def fetchConfig_def Let_def split_beta)

lemma perform_handlers_kept:
  "k \<notin> set (assigned op) \<Longrightarrow> handlers (opts (fst (perform op c))) k = handlers (opts c) k"
  by (cases op)
     (simp_all add: build_def buildBy_def consoleStream_def console_def stop_def dashboard_def
        discover_def executor_def job_def queue_def version_def feed_def monitor_def
        create_def update_def fetchConfig_def Let_def split_beta)

lemma perform_handlers_assigned:
  "k \<in> set (assigned op) \<Longrightarrow> handlers (opts (fst (perform op c))) k \<noteq> None"
  by (cases op)
     (auto simp add: build_def buildBy_def consoleStream_def console_def stop_def dashboard_def
        executor_def job_def queue_def version_def monitor_def
        create_def update_def fetchConfig_def Let_def split_beta)

lemma perform_untouched:
  "assigned op = [] \<Longrightarrow> fst (perform op c) = c"
  by (cases op) (simp_all add: feed_def discover_def Let_def)

lemma perform_sent_table:
  "\<forall>req\<in>set (sent_requests (snd (perform op c))).
      handlers (req_opts req) = handlers (opts (fst (perform op c)))"
  by (cases op)
     (simp_all add: build_def buildBy_def consoleStream_def console_def stop_def dashboard_def
        discover_def executor_def job_def queue_def version_def feed_def monitor_def
        create_def update_def fetchConfig_def Let_def split_beta)

lemma assigned_empty:
  "(assigned op = []) = ((\<exists>a b. op = Feed a b) \<or> (\<exists>h. op = Discover h))"
  by (cases op) simp_all

lemma build_queryStrings:
  "queryStrings (opts (fst (build jobName params c)))
     = Some [(''token'', QStr ''nestor''), (''json'', QJson (build_parameters params))]"
  by (simp add: build_def Let_def)

lemma leftover_sent:
  "op = Dashboard \<or> op = Stop j2 \<or> op = Queue \<or> op = Version \<Longrightarrow>
   map (\<lambda>req. queryStrings (req_opts req)) (sent_requests (snd (perform op c)))
     = [queryStrings (opts c)]"
  by (auto simp: dashboard_def stop_def queue_def version_def Let_def)

text \<open>
  C10 (amended). \<open>build\<close> stores the trigger token and the parameter JSON in
  \<open>this.opts.queryStrings\<close> and leaves them there: \<open>dashboard\<close>, \<open>stop\<close>,
  \<open>queue\<close> or \<open>version\<close> called next on the same client sends one request, with
  these query strings, and so does every operation that does not assign query strings of
  its own with whatever an earlier call left. The handler table is shared in the same
  way: every operation that goes through the transport adapter, those of the view module
  included, assigns its handlers in the one table, keeps every other entry, and sends
  its requests with that table. \<open>feed\<close> and \<open>discover\<close> are the operations that
  assign no handler; they leave the client as it is.
\<close>

theorem shared_opts:
  "queryStrings (opts (fst (build jobName params c)))
     = Some [(''token'', QStr ''nestor''), (''json'', QJson (build_parameters params))]
   \<and> (op = Dashboard \<or> op = Stop j2 \<or> op = Queue \<or> op = Version \<longrightarrow>
        map (\<lambda>req. queryStrings (req_opts req))
            (sent_requests (snd (perform op (fst (build jobName params c)))))
          = [Some [(''token'', QStr ''nestor''), (''json'', QJson (build_parameters params))]])
   \<and> (\<not> sets_queryStrings op \<longrightarrow>
        queryStrings (opts (fst (perform op c))) = queryStrings (opts c)
        \<and> (\<forall>req\<in>set (sent_requests (snd (perform op c))).
              queryStrings (req_opts req) = queryStrings (opts c)))
   \<and> (k \<notin> set (assigned op) \<longrightarrow>
        handlers (opts (fst (perform op c))) k = handlers (opts c) k)
   \<and> (k \<in> set (assigned op) \<longrightarrow> handlers (opts (fst (perform op c))) k \<noteq> None)
   \<and> (\<forall>req\<in>set (sent_requests (snd (perform op c))).
        handlers (req_opts req) = handlers (opts (fst (perform op c))))
   \<and> ((assigned op = []) = ((\<exists>a b. op = Feed a b) \<or> (\<exists>h. op = Discover h)))
   \<and> (assigned op = [] \<longrightarrow> fst (perform op c) = c)"
proof -
  note 1 = build_queryStrings [of jobName params c]
  have 2: "op = Dashboard \<or> op = Stop j2 \<or> op = Queue \<or> op = Version \<longrightarrow>
        map (\<lambda>req. queryStrings (req_opts req))
            (sent_requests (snd (perform op (fst (build jobName params c)))))
          = [Some [(''token'', QStr ''nestor''), (''json'', QJson (build_parameters params))]]"
    using leftover_sent [of op j2 "fst (build jobName params c)"] 1 by simp
  have 3: "\<not> sets_queryStrings op \<longrightarrow>
        queryStrings (opts (fst (perform op c))) = queryStrings (opts c)
        \<and> (\<forall>req\<in>set (sent_requests (snd (perform op c))).
              queryStrings (req_opts req) = queryStrings (opts c))"
    using perform_queryStrings_kept [of op c] by blast
  have 4: "k \<notin> set (assigned op) \<longrightarrow>
        handlers (opts (fst (perform op c))) k = handlers (opts c) k"
    using perform_handlers_kept [of k op c] by blast
  have 5: "k \<in> set (assigned op) \<longrightarrow> handlers (opts (fst (perform op c))) k \<noteq> None"
    using perform_handlers_assigned [of k op c] by blast
  note 6 = perform_sent_table [of op c]
  note 7 = assigned_empty [of op]
  have 8: "assigned op = [] \<longrightarrow> fst (perform op c) = c"
    using perform_untouched [of op c] by blast
  from 1 2 3 4 5 6 7 8 show ?thesis by blast
qed

text \<open>
  The theorem on a fresh client: after \<open>build\<close> of \<open>job1\<close> with one parameter,
  \<open>dashboard\<close> sends the token and the parameter as its query strings, and the table
  still answers status 404 with the handler of that build.
\<close>

theorem shared_opts_witness:
  "map (\<lambda>req. queryStrings (req_opts req))
     (sent_requests (snd (perform Dashboard (fst (build ''job1'' (Some ''k=v'') (Jenkins None None))))))
     = [Some [(''token'', QStr ''nestor''), (''json'', QJson [(''k'', Some ''v'')])]]
   \<and> handlers (opts (fst (perform Dashboard (fst (build ''job1'' (Some ''k=v'') (Jenkins None None))))))
       404 = Some (build_notFound ''job1'')"
proof -
  note t = shared_opts [of "''job1''" "Some ''k=v''" "Jenkins None None" Dashboard "''job1''" 404]
  note t' = shared_opts [of "''job1''" "Some ''k=v''"
      "fst (build ''job1'' (Some ''k=v'') (Jenkins None None))" Dashboard "''job1''" 404]
  have p: "build_parameters (Some ''k=v'') = [(''k'', Some ''v'')]"
    by (simp add: build_parameters_def build_parameter_def)
  have a: "map (\<lambda>req. queryStrings (req_opts req))
     (sent_requests (snd (perform Dashboard (fst (build ''job1'' (Some ''k=v'') (Jenkins None None))))))
     = [Some [(''token'', QStr ''nestor''), (''json'', QJson [(''k'', Some ''v'')])]]"
    using t p by simp
  have "handlers (opts (fst (perform Dashboard (fst (build ''job1'' (Some ''k=v'') (Jenkins None None))))))
       404 = handlers (opts (fst (build ''job1'' (Some ''k=v'') (Jenkins None None)))) 404"
    using t' by simp
  then have b: "handlers (opts (fst (perform Dashboard (fst (build ''job1'' (Some ''k=v'') (Jenkins None None))))))
       404 = Some (build_notFound ''job1'')"
    by (simp add: build_handlers)
  from a b show ?thesis by blast
qed

text \<open>
  C10 as stated fails for two operations: \<open>feed\<close> and \<open>discover\<close> do not change the
  handler table, nor anything else of the options.
\<close>

theorem feed_discover_counterexample:
  "opts (fst (perform (Feed (Some ''job1'') None) (Jenkins None None))) = opts (Jenkins None None)
   \<and> opts (fst (perform (Discover ''localhost'') (Jenkins None None))) = opts (Jenkins None None)"
  by (simp add: feed_def discover_def Let_def)

section \<open>Properties of the discovery\<close>





end
